theory Spec2Isabelle
  imports Main "HOL-Library.AList"
begin

section \<open>Browser primitives used by the data layer\<close>

text \<open>
  JavaScript strings are modelled as \<^typ>\<open>string\<close> (the UTF-8 bytes of the text), numbers
  that hold timestamps, identifiers and HTTP statuses as \<^typ>\<open>int\<close> and \<^typ>\<open>nat\<close>.
  A value of type \<open>string | null\<close> is a \<^typ>\<open>string option\<close>; such a value is truthy
  when it is present and not the empty string.
\<close>

definition truthy :: "string option \<Rightarrow> bool" where
  "truthy v = (case v of None \<Rightarrow> False | Some s \<Rightarrow> s \<noteq> [])"

text \<open>White space as \<open>String.prototype.trim\<close>, \<open>parseInt\<close> and the regular
  expression class \<open>\s\<close> see it, restricted to the ASCII range: tab, line feed, vertical
  tab, form feed, carriage return and space.\<close>

definition is_space :: "char \<Rightarrow> bool" where
  "is_space c = (c \<in> set [CHR 0x09, CHR 0x0A, CHR 0x0B, CHR 0x0C, CHR 0x0D, CHR 0x20])"

definition is_digit :: "char \<Rightarrow> bool" where
  "is_digit c = (c \<in> set ''0123456789'')"

definition is_hex_digit :: "char \<Rightarrow> bool" where
  "is_hex_digit c = (c \<in> set ''0123456789abcdefABCDEF'')"

definition digit_char :: "nat \<Rightarrow> char" where
  "digit_char d = ''0123456789ABCDEF'' ! (d mod 16)"

definition digit_val :: "char \<Rightarrow> nat" where
  "digit_val c =
     (if is_digit c then of_char c - 48
      else if c \<in> set ''abcdef'' then of_char c - 87
      else of_char c - 55)"

text \<open>The value of a digit string in a radix, most significant digit first.\<close>

definition digits_val :: "nat \<Rightarrow> string \<Rightarrow> nat" where
  "digits_val radix ds = foldl (\<lambda>acc c. acc * radix + digit_val c) 0 ds"

text \<open>
  \<open>parseInt(s)\<close> with no radix argument: leading white space is skipped, one sign is
  accepted, a \<open>0x\<close> or \<open>0X\<close> prefix selects radix 16, and the longest prefix of digits
  is read. With no digit the result is \<open>NaN\<close>, here \<open>None\<close>.
\<close>

definition parseInt :: "string \<Rightarrow> int option" where
  "parseInt s =
     (let s1 = dropWhile is_space s;
          neg = (case s1 of c # _ \<Rightarrow> c = CHR ''-'' | [] \<Rightarrow> False);
          s2 = (case s1 of c # r \<Rightarrow> if c = CHR ''-'' \<or> c = CHR ''+'' then r else s1 | [] \<Rightarrow> s1);
          hex = (take 2 s2 = ''0x'' \<or> take 2 s2 = ''0X'');
          ds = (if hex then takeWhile is_hex_digit (drop 2 s2) else takeWhile is_digit s2);
          v = int (digits_val (if hex then 16 else 10) ds)
      in if ds = [] then None else Some (if neg then - v else v))"

text \<open>Decimal text of a number, as \<open>String(n)\<close> and template literals print an integer
  (below \<open>10^21\<close> in magnitude, where JavaScript switches to exponent notation).\<close>

fun show_nat :: "nat \<Rightarrow> string" where
  "show_nat n = (if n < 10 then [digit_char n] else show_nat (n div 10) @ [digit_char (n mod 10)])"

declare show_nat.simps [simp del]

definition show_int :: "int \<Rightarrow> string" where
  "show_int i = (if i < 0 then CHR ''-'' # show_nat (nat (- i)) else show_nat (nat i))"

text \<open>\<open>haystack.includes(needle)\<close>.\<close>

fun str_includes :: "string \<Rightarrow> string \<Rightarrow> bool" where
  "str_includes [] needle = (needle = [])"
| "str_includes (c # cs) needle = (take (length needle) (c # cs) = needle \<or> str_includes cs needle)"

section \<open>Session store: \<open>localStorage\<close>\<close>

type_synonym storage = "string \<rightharpoonup> string"

definition getItem :: "storage \<Rightarrow> string \<Rightarrow> string option" where
  "getItem st k = st k"

definition setItem :: "string \<Rightarrow> string \<Rightarrow> storage \<Rightarrow> storage" where
  "setItem k v st = st(k \<mapsto> v)"

definition removeItem :: "string \<Rightarrow> storage \<Rightarrow> storage" where
  "removeItem k st = st(k := None)"

definition getAuthToken :: "storage \<Rightarrow> string option" where
  "getAuthToken st = getItem st ''access_token''"

definition getRefreshToken :: "storage \<Rightarrow> string option" where
  "getRefreshToken st = getItem st ''refresh_token''"

text \<open>\<open>isAuthenticated\<close>; the second argument is the value of \<open>Date.now()\<close>. A comparison
  with \<open>NaN\<close> is false.\<close>

definition isAuthenticated :: "storage \<Rightarrow> int \<Rightarrow> bool" where
  "isAuthenticated st now =
     (let token = getAuthToken st;
          expiresAt = getItem st ''expires_at''
      in if \<not> truthy token \<or> \<not> truthy expiresAt then False
         else (case expiresAt of
                 None \<Rightarrow> False
               | Some e \<Rightarrow> (case parseInt e of None \<Rightarrow> False | Some expiry \<Rightarrow> now < expiry)))"

definition clearAuthData :: "storage \<Rightarrow> storage" where
  "clearAuthData st =
     removeItem ''expires_at'' (removeItem ''coach''
       (removeItem ''refresh_token'' (removeItem ''access_token'' st)))"

text \<open>A stored session with an access token and an expiry but no refresh token.\<close>

definition session_without_refresh :: storage where
  "session_without_refresh = [''access_token'' \<mapsto> ''tok'', ''expires_at'' \<mapsto> ''2000'']"

section \<open>Network, clock and page: the world the gateway runs in\<close>

datatype js_error = Error string

record request =
  req_url :: string
  req_method :: "string option"
  req_headers :: "(string \<times> string) list"
  req_body :: "string option"

record response =
  resp_status :: nat
  resp_text :: string

text \<open>\<open>fetch\<close> either rejects (a network error, with its message) or resolves to a
  response.\<close>

datatype net_result = NetFail string | Resp response

text \<open>\<open>response.ok\<close>.\<close>

definition resp_ok :: "response \<Rightarrow> bool" where
  "resp_ok r = (200 \<le> resp_status r \<and> resp_status r \<le> 299)"

text \<open>The body of a login or refresh response, as the interface \<open>LoginResponse\<close> types it;
  \<open>coach\<close> holds the text \<open>JSON.stringify\<close> gives for the coach object.\<close>

record token_response =
  access_token :: string
  refresh_token :: string
  expires_in :: int


text \<open>
  What the code cannot decide itself is a parameter: \<open>net\<close> answers a request, given
  the requests issued before it; \<open>clock\<close> is the value of \<open>Date.now()\<close> after that many
  requests (time passes while a request is awaited, not while synchronous code runs);
  \<open>tokens_of\<close> and \<open>json_of\<close> are \<open>response.json()\<close> on a body text, for the
  refresh endpoint and for the payload type of a resource (\<open>None\<close> and \<open>Inl\<close>: the
  promise rejects, \<open>Inl\<close> with the message of the error).
\<close>

record 'a env =
  net :: "request list \<Rightarrow> request \<Rightarrow> net_result"
  clock :: "nat \<Rightarrow> int"
  tokens_of :: "string \<Rightarrow> token_response option"
  json_of :: "string \<Rightarrow> string + 'a"

text \<open>The mutable world: \<open>localStorage\<close>, the requests sent so far (oldest first), and how
  often \<open>window.location.reload()\<close> was called.\<close>

record world =
  local_storage :: storage
  requests :: "request list"
  reloads :: nat

definition date_now :: "('a, 'b) env_scheme \<Rightarrow> world \<Rightarrow> int" where
  "date_now e w = clock e (length (requests w))"

definition fetch :: "('a, 'b) env_scheme \<Rightarrow> request \<Rightarrow> world \<Rightarrow> net_result \<times> world" where
  "fetch e r w = (net e (requests w) r, w\<lparr>requests := requests w @ [r]\<rparr>)"

definition API_BASE_URL :: string where
  "API_BASE_URL = ''http://localhost:3100''"

definition redirectToLogin :: "world \<Rightarrow> world" where
  "redirectToLogin w = w\<lparr>local_storage := clearAuthData (local_storage w), reloads := Suc (reloads w)\<rparr>"

text \<open>An object spread \<open>{...a, ...b}\<close> on string-keyed objects: the keys of \<open>a\<close> in their
  order, with the values \<open>b\<close> gives them, then the other keys of \<open>b\<close>.\<close>

definition spread :: "(string \<times> string) list \<Rightarrow> (string \<times> string) list \<Rightarrow> (string \<times> string) list" where
  "spread a b = fold (\<lambda>(k, v). AList.update k v) b a"

text \<open>\<open>JSON.stringify\<close> of a string.\<close>

definition hex_lower :: "nat \<Rightarrow> char" where
  "hex_lower d = ''0123456789abcdef'' ! (d mod 16)"

definition json_escape :: "char \<Rightarrow> string" where
  "json_escape c =
     (if c = CHR 0x22 then [CHR 0x5C, CHR 0x22]
      else if c = CHR 0x5C then [CHR 0x5C, CHR 0x5C]
      else if c = CHR 0x08 then [CHR 0x5C, CHR ''b'']
      else if c = CHR 0x09 then [CHR 0x5C, CHR ''t'']
      else if c = CHR 0x0A then [CHR 0x5C, CHR ''n'']
      else if c = CHR 0x0C then [CHR 0x5C, CHR ''f'']
      else if c = CHR 0x0D then [CHR 0x5C, CHR ''r'']
      else if (of_char c :: nat) < 32
        then [CHR 0x5C, CHR ''u'', CHR ''0'', CHR ''0'', hex_lower (of_char c div 16), hex_lower (of_char c)]
      else [c])"

definition json_string :: "string \<Rightarrow> string" where
  "json_string s = [CHR 0x22] @ concat (map json_escape s) @ [CHR 0x22]"

section \<open>Authenticated request gateway\<close>

definition getAuthHeaders :: "storage \<Rightarrow> (string \<times> string) list" where
  "getAuthHeaders st =
     (let token = getAuthToken st
      in (''Content-Type'', ''application/json'') #
         (case token of
            None \<Rightarrow> []
          | Some t \<Rightarrow> if t \<noteq> [] then [(''Authorization'', ''Bearer '' @ t)] else []))"

definition refresh_request :: "string \<Rightarrow> request" where
  "refresh_request refreshToken =
     \<lparr>req_url = API_BASE_URL @ ''/api/auth/refresh'',
      req_method = Some ''POST'',
      req_headers = [(''Content-Type'', ''application/json'')],
      req_body = Some (''{'' @ json_string ''refresh_token'' @ '':'' @ json_string refreshToken @ ''}'')\<rparr>"

definition store_tokens :: "token_response \<Rightarrow> int \<Rightarrow> storage \<Rightarrow> storage" where
  "store_tokens d now st =
     setItem ''expires_at'' (show_int (now + expires_in d * 1000))
       (setItem ''refresh_token'' (refresh_token d)
         (setItem ''access_token'' (access_token d) st))"

definition refreshAuthToken :: "('a, 'b) env_scheme \<Rightarrow> world \<Rightarrow> string option \<times> world" where
  "refreshAuthToken e w =
     (let refreshToken = getRefreshToken (local_storage w)
      in if \<not> truthy refreshToken then (None, redirectToLogin w)
         else (case refreshToken of
                 None \<Rightarrow> (None, redirectToLogin w)
               | Some rt \<Rightarrow>
                   (case fetch e (refresh_request rt) w of
                      (NetFail m, w1) \<Rightarrow> (None, redirectToLogin w1)
                    | (Resp r, w1) \<Rightarrow>
                        if \<not> resp_ok r then (None, redirectToLogin w1)
                        else (case tokens_of e (resp_text r) of
                                None \<Rightarrow> (None, redirectToLogin w1)
                              | Some d \<Rightarrow>
                                  (Some (access_token d),
                                   w1\<lparr>local_storage :=
                                        store_tokens d (date_now e w1) (local_storage w1)\<rparr>)))))"

definition handleAuthError :: "nat \<Rightarrow> string \<Rightarrow> js_error" where
  "handleAuthError status errorText =
     (if status = 401 then
        (if str_includes errorText ''expired''
           then Error ''Your session has expired. Please log in again.''
         else if str_includes errorText ''invalid''
           then Error ''Invalid authentication credentials. Please log in again.''
         else Error ''Authentication failed. Please log in again.'')
      else if status = 403 then Error ''You do not have permission to access this resource.''
      else if status = 404 then Error ''The requested resource was not found.''
      else if status = 429 then Error ''Too many requests. Please try again later.''
      else if status = 500 then Error ''Server error. Please try again later.''
      else Error (''Request failed with status '' @ show_nat status @ ''. '' @ errorText))"

text \<open>The \<open>RequestInit\<close> the callers pass: method, body and headers, each optional.\<close>

record fetch_options =
  opt_method :: "string option"
  opt_body :: "string option"
  opt_headers :: "(string \<times> string) list"

definition no_options :: fetch_options where
  "no_options = \<lparr>opt_method = None, opt_body = None, opt_headers = []\<rparr>"

text \<open>The argument of \<open>fetch\<close> in \<open>authenticatedFetch\<close>: the options, with the header object
  replaced by the authentication headers overlaid with the caller's.\<close>

definition auth_request :: "string \<Rightarrow> fetch_options \<Rightarrow> storage \<Rightarrow> request" where
  "auth_request url options st =
     \<lparr>req_url = url,
      req_method = opt_method options,
      req_headers = spread (getAuthHeaders st) (opt_headers options),
      req_body = opt_body options\<rparr>"

definition authenticatedFetch ::
  "('a, 'b) env_scheme \<Rightarrow> string \<Rightarrow> fetch_options \<Rightarrow> world \<Rightarrow> (js_error + response) \<times> world" where
  "authenticatedFetch e url options w =
     (if \<not> isAuthenticated (local_storage w) (date_now e w)
        then (Inl (Error ''Authentication required''), redirectToLogin w)
      else (case fetch e (auth_request url options (local_storage w)) w of
              (NetFail m, w1) \<Rightarrow> (Inl (Error m), w1)
            | (Resp r, w1) \<Rightarrow>
                if resp_status r = 401 then
                  (case refreshAuthToken e w1 of
                     (newToken, w2) \<Rightarrow>
                       if truthy newToken then
                         (case fetch e (auth_request url options (local_storage w2)) w2 of
                            (NetFail m, w3) \<Rightarrow> (Inl (Error m), w3)
                          | (Resp r2, w3) \<Rightarrow> (Inr r2, w3))
                       else (Inl (Error ''Authentication failed''), w2))
                else (Inr r, w1)))"

text \<open>What \<open>makeAuthenticatedAPICall\<close> does with the response it got.\<close>

definition api_result :: "'a env \<Rightarrow> response \<Rightarrow> world \<Rightarrow> (js_error + 'a) \<times> world" where
  "api_result e r w =
     (if \<not> resp_ok r then
        (if resp_status r = 401
           then (Inl (Error ''Authentication failed''), redirectToLogin w)
         else (Inl (handleAuthError (resp_status r) (resp_text r)), w))
      else (case json_of e (resp_text r) of
              Inl m \<Rightarrow> (Inl (Error m), w)
            | Inr d \<Rightarrow> (Inr d, w)))"

definition makeAuthenticatedAPICall ::
  "'a env \<Rightarrow> string \<Rightarrow> fetch_options \<Rightarrow> world \<Rightarrow> (js_error + 'a) \<times> world" where
  "makeAuthenticatedAPICall e url options w =
     (case authenticatedFetch e url options w of
        (Inl err, w1) \<Rightarrow> (Inl err, w1)
      | (Inr r, w1) \<Rightarrow> api_result e r w1)"

section \<open>Observing a run\<close>

text \<open>The requests sent between two worlds, and how many of a request list went to a URL.\<close>

definition issued :: "world \<Rightarrow> world \<Rightarrow> request list" where
  "issued w w' = drop (length (requests w)) (requests w')"

definition calls_to :: "string \<Rightarrow> request list \<Rightarrow> nat" where
  "calls_to url rs = length (filter (\<lambda>r. req_url r = url) rs)"

definition refresh_url :: string where
  "refresh_url = API_BASE_URL @ ''/api/auth/refresh''"

text \<open>A logged-in browser at time 1000, and three servers: one whose first answer is 401,
  which then refreshes the tokens and answers the retry with 500; one that answers 401 and
  refuses the refresh; one that answers every request with 404.\<close>

definition demo_storage :: storage where
  "demo_storage =
     [''access_token'' \<mapsto> ''old'', ''refresh_token'' \<mapsto> ''r1'',
      ''coach'' \<mapsto> ''{}'', ''expires_at'' \<mapsto> ''2000'']"

definition demo_world :: world where
  "demo_world = \<lparr>local_storage = demo_storage, requests = [], reloads = 0\<rparr>"

definition demo_tokens :: token_response where
  "demo_tokens = \<lparr>access_token = ''new'', refresh_token = ''r2'', expires_in = 3600\<rparr>"

definition retry_env :: "string env" where
  "retry_env =
     \<lparr>net = (\<lambda>sent r.
         if length sent = 0 then Resp \<lparr>resp_status = 401, resp_text = ''expired''\<rparr>
         else if length sent = 1 then Resp \<lparr>resp_status = 200, resp_text = ''tokens''\<rparr>
         else Resp \<lparr>resp_status = 500, resp_text = ''down''\<rparr>),
      clock = (\<lambda>n. 1000),
      tokens_of = (\<lambda>s. Some demo_tokens),
      json_of = (\<lambda>s. Inr s)\<rparr>"

definition refused_env :: "string env" where
  "refused_env =
     \<lparr>net = (\<lambda>sent r.
         if length sent = 0 then Resp \<lparr>resp_status = 401, resp_text = ''expired''\<rparr>
         else Resp \<lparr>resp_status = 400, resp_text = ''bad refresh token''\<rparr>),
      clock = (\<lambda>n. 1000),
      tokens_of = (\<lambda>s. None),
      json_of = (\<lambda>s. Inr s)\<rparr>"

section \<open>Resource fetch hooks\<close>

text \<open>The three pieces of state every hook keeps with \<open>useState\<close>.\<close>

record 'a fetch_state =
  data :: "'a option"
  loading :: bool
  error :: "string option"

definition initial_state :: "'a fetch_state" where
  "initial_state = \<lparr>data = None, loading = True, error = None\<rparr>"

text \<open>
  An \<open>async\<close> fetch function runs in two steps. The synchronous step, up to the
  \<open>await\<close> of the gateway call, is \<open>setLoading(true); setError(null)\<close>; the step that
  runs when the call has settled takes the outcome of the call. \<open>err.message\<close> is the
  message of the error thrown, every error here being an \<open>Error\<close>.
\<close>

definition fetch_start :: "'a fetch_state \<Rightarrow> 'a fetch_state" where
  "fetch_start s = s\<lparr>loading := True, error := None\<rparr>"

definition not_authenticated :: "'a fetch_state \<Rightarrow> 'a fetch_state" where
  "not_authenticated s = s\<lparr>loading := False, error := Some ''Authentication required''\<rparr>"

subsection \<open>Dashboard metrics\<close>

definition fetchMetrics_done :: "js_error + 'a \<Rightarrow> 'a fetch_state \<Rightarrow> 'a fetch_state" where
  "fetchMetrics_done outcome s =
     (case outcome of
        Inr metrics \<Rightarrow> s\<lparr>data := Some metrics, loading := False\<rparr>
      | Inl (Error errorMessage) \<Rightarrow> s\<lparr>error := Some errorMessage, loading := False\<rparr>)"

definition useDashboardMetrics_effect :: "'a env \<Rightarrow> world \<Rightarrow> 'a fetch_state \<Rightarrow> 'a fetch_state \<times> world" where
  "useDashboardMetrics_effect e w s =
     (if isAuthenticated (local_storage w) (date_now e w) then
        (case makeAuthenticatedAPICall e (API_BASE_URL @ ''/api/dashboard/metrics'') no_options w of
           (outcome, w') \<Rightarrow> (fetchMetrics_done outcome (fetch_start s), w'))
      else (not_authenticated s, w))"

subsection \<open>JSON objects of the list endpoints\<close>

datatype jsval =
  JUndefined | JNull | JBool bool | JNum int | JStr string
  | JArr "jsval list" | JObj "(string \<times> jsval) list"

type_synonym js_object = "(string \<times> jsval) list"

definition js_truthy :: "jsval \<Rightarrow> bool" where
  "js_truthy v =
     (case v of
        JUndefined \<Rightarrow> False | JNull \<Rightarrow> False | JBool b \<Rightarrow> b
      | JNum n \<Rightarrow> n \<noteq> 0 | JStr s \<Rightarrow> s \<noteq> [] | JArr _ \<Rightarrow> True | JObj _ \<Rightarrow> True)"

text \<open>\<open>obj.key\<close>, and \<open>{...obj, k1: v1, ...}\<close>.\<close>

definition get_prop :: "js_object \<Rightarrow> string \<Rightarrow> jsval" where
  "get_prop obj k = (case map_of obj k of None \<Rightarrow> JUndefined | Some v \<Rightarrow> v)"

definition with_props :: "js_object \<Rightarrow> js_object \<Rightarrow> js_object" where
  "with_props obj kvs = fold (\<lambda>(k, v). AList.update k v) kvs obj"

subsection \<open>Courses\<close>

definition transform_course :: "js_object \<Rightarrow> js_object" where
  "transform_course course =
     with_props course
       [(''enrolledStudents'', get_prop course ''student_count''),
        (''completionRate'', get_prop course ''completion_rate''),
        (''status'', JStr (if js_truthy (get_prop course ''is_active'') then ''live'' else ''draft'')),
        (''version'', if js_truthy (get_prop course ''version'') then get_prop course ''version'' else JNum 1),
        (''modules'', JArr []),
        (''superCoachId'', JNull),
        (''baseId'', get_prop course ''id''),
        (''isCurrentVersion'', JBool True),
        (''updatedAt'', get_prop course ''created_at'')]"

definition fetchCourses_done ::
  "js_error + js_object list \<Rightarrow> js_object list fetch_state \<Rightarrow> js_object list fetch_state" where
  "fetchCourses_done outcome s =
     (case outcome of
        Inr courses \<Rightarrow> s\<lparr>data := Some (map transform_course courses), loading := False\<rparr>
      | Inl (Error errorMessage) \<Rightarrow> s\<lparr>error := Some errorMessage, loading := False\<rparr>)"

definition useCourses_effect ::
  "js_object list env \<Rightarrow> world \<Rightarrow> js_object list fetch_state \<Rightarrow> js_object list fetch_state \<times> world" where
  "useCourses_effect e w s =
     (if isAuthenticated (local_storage w) (date_now e w) then
        (case makeAuthenticatedAPICall e (API_BASE_URL @ ''/api/courses'') no_options w of
           (outcome, w') \<Rightarrow> (fetchCourses_done outcome (fetch_start s), w'))
      else (not_authenticated s, w))"

subsection \<open>Students\<close>

record student_filters =
  course_id :: "int option"
  status :: "string option"
  search :: "string option"

text \<open>\<open>encodeURIComponent\<close>: letters, digits and \<open>-_.!~*'()\<close> stay, every other byte of
  the UTF-8 text becomes \<open>%XX\<close>.\<close>

definition is_alnum :: "char \<Rightarrow> bool" where
  "is_alnum c =
     (c \<in> set ''abcdefghijklmnopqrstuvwxyz'' \<or> c \<in> set ''ABCDEFGHIJKLMNOPQRSTUVWXYZ'' \<or> is_digit c)"

definition uri_unreserved :: "char \<Rightarrow> bool" where
  "uri_unreserved c = (is_alnum c \<or> c \<in> set [CHR ''-'', CHR ''_'', CHR ''.'', CHR ''!'', CHR ''~'',
                                               CHR ''*'', CHR 0x27, CHR ''('', CHR '')''])"

definition encodeURIComponent :: "string \<Rightarrow> string" where
  "encodeURIComponent s =
     concat (map (\<lambda>c. if uri_unreserved c then [c]
                       else [CHR ''%'', digit_char (of_char c div 16), digit_char (of_char c)]) s)"

text \<open>\<open>parts.join(sep)\<close>.\<close>

fun join :: "string \<Rightarrow> string list \<Rightarrow> string" where
  "join sep [] = []"
| "join sep [x] = x"
| "join sep (x # y # ys) = x @ sep @ join sep (y # ys)"

text \<open>The \<open>queryParams\<close> array after the three conditional pushes; \<open>filters\<close> itself may be
  undefined. A number is truthy unless it is zero, a string unless it is empty.\<close>

definition students_queryParams :: "student_filters option \<Rightarrow> string list" where
  "students_queryParams filters =
     (let queryParams = [];
          queryParams = (case Option.bind filters course_id of
                           Some n \<Rightarrow> if n \<noteq> 0 then queryParams @ [''course_id='' @ show_int n]
                                     else queryParams
                         | None \<Rightarrow> queryParams);
          queryParams = (case Option.bind filters status of
                           Some st \<Rightarrow> if st \<noteq> [] then queryParams @ [''status='' @ encodeURIComponent st]
                                      else queryParams
                         | None \<Rightarrow> queryParams);
          queryParams = (case Option.bind filters search of
                           Some q \<Rightarrow> if q \<noteq> [] then queryParams @ [''search='' @ encodeURIComponent q]
                                     else queryParams
                         | None \<Rightarrow> queryParams)
      in queryParams)"

definition students_url :: "student_filters option \<Rightarrow> string" where
  "students_url filters =
     (let url = API_BASE_URL @ ''/api/students'';
          queryParams = students_queryParams filters
      in if length queryParams > 0 then url @ ''?'' @ join ''&'' queryParams else url)"

text \<open>\<open>new Date(v).toLocaleString()\<close> depends on the browser's locale and time zone; it is
  the parameter \<open>localeString\<close>.\<close>

definition transform_student :: "(jsval \<Rightarrow> string) \<Rightarrow> js_object \<Rightarrow> js_object" where
  "transform_student localeString student =
     with_props student
       [(''enrolledCourses'', JArr []),
        (''progress'', JArr []),
        (''joinedAt'', get_prop student ''created_at''),
        (''lastActivity'', JStr (if js_truthy (get_prop student ''last_active'')
                                  then localeString (get_prop student ''last_active'')
                                  else ''No activity'')),
        (''courses_enrolled'', if js_truthy (get_prop student ''courses_enrolled'')
                                 then get_prop student ''courses_enrolled'' else JNum 0)]"

definition fetchStudents_done ::
  "(jsval \<Rightarrow> string) \<Rightarrow> js_error + js_object list \<Rightarrow> js_object list fetch_state \<Rightarrow> js_object list fetch_state" where
  "fetchStudents_done localeString outcome s =
     (case outcome of
        Inr students \<Rightarrow> s\<lparr>data := Some (map (transform_student localeString) students), loading := False\<rparr>
      | Inl (Error errorMessage) \<Rightarrow> s\<lparr>error := Some errorMessage, loading := False\<rparr>)"

definition useStudents_effect ::
  "(jsval \<Rightarrow> string) \<Rightarrow> js_object list env \<Rightarrow> student_filters option \<Rightarrow> world \<Rightarrow>
     js_object list fetch_state \<Rightarrow> js_object list fetch_state \<times> world" where
  "useStudents_effect localeString e filters w s =
     (if isAuthenticated (local_storage w) (date_now e w) then
        (case makeAuthenticatedAPICall e (students_url filters) no_options w of
           (outcome, w') \<Rightarrow> (fetchStudents_done localeString outcome (fetch_start s), w'))
      else (not_authenticated s, w))"

text \<open>
  Two runs of the effect that overlap: the filters change from \<open>f1\<close> to \<open>f2\<close> while the
  first request is in flight, and the first response arrives after the second. Both
  synchronous steps have run when the first response to arrive, the second request's, is
  handled; the first request's is handled last.
\<close>

definition useStudents_overlap ::
  "(jsval \<Rightarrow> string) \<Rightarrow> js_object list env \<Rightarrow> student_filters option \<Rightarrow> student_filters option \<Rightarrow>
     world \<Rightarrow> js_object list fetch_state \<Rightarrow> js_object list fetch_state" where
  "useStudents_overlap localeString e f1 f2 w s =
     (case makeAuthenticatedAPICall e (students_url f1) no_options w of
        (outcome1, w1) \<Rightarrow>
          (case makeAuthenticatedAPICall e (students_url f2) no_options w1 of
             (outcome2, w2) \<Rightarrow>
               fetchStudents_done localeString outcome1
                 (fetchStudents_done localeString outcome2 (fetch_start (fetch_start s)))))"

subsection \<open>Conversations, with the built-in data set as fallback\<close>

record message =
  msg_id :: nat
  msg_senderId :: nat
  msg_senderType :: string
  msg_content :: string
  msg_timestamp :: string
  msg_type :: string

record conversation =
  conv_id :: nat
  conv_studentId :: nat
  conv_superCoachId :: nat
  conv_courseId :: nat
  conv_courseVersion :: nat
  conv_messages :: "message list"
  conv_startedAt :: string
  conv_lastMessageAt :: string

definition mockMessages :: "message list" where
  "mockMessages =
     [\<lparr>msg_id = 1, msg_senderId = 1, msg_senderType = ''student'',
       msg_content = ''Hi Coach Maya! I'm having trouble understanding the Facebook advertising module. Could you help me?'',
       msg_timestamp = ''2024-02-25T10:00:00Z'', msg_type = ''text''\<rparr>,
      \<lparr>msg_id = 2, msg_senderId = 1, msg_senderType = ''supercoach'',
       msg_content = ''Hi Sarah! I'd be happy to help you with Facebook advertising. What specific part are you finding challenging? Is it the audience targeting or the ad creation process?'',
       msg_timestamp = ''2024-02-25T10:15:00Z'', msg_type = ''text''\<rparr>,
      \<lparr>msg_id = 3, msg_senderId = 1, msg_senderType = ''student'',
       msg_content = ''I'm confused about how to set up custom audiences. The interface seems different from what's shown in the video.'',
       msg_timestamp = ''2024-02-25T10:30:00Z'', msg_type = ''text''\<rparr>,
      \<lparr>msg_id = 4, msg_senderId = 1, msg_senderType = ''supercoach'',
       msg_content = ''That's a great question! Facebook does update their interface regularly. Let me walk you through the current process step by step. First, go to your Ads Manager and click on 'Audiences' in the main menu...'',
       msg_timestamp = ''2024-02-25T10:45:00Z'', msg_type = ''text''\<rparr>,
      \<lparr>msg_id = 5, msg_senderId = 1, msg_senderType = ''student'',
       msg_content = ''Thank you so much! That makes it much clearer. I'll try it now and let you know how it goes.'',
       msg_timestamp = ''2024-02-25T11:00:00Z'', msg_type = ''text''\<rparr>]"

definition mockMessages2 :: "message list" where
  "mockMessages2 =
     [\<lparr>msg_id = 6, msg_senderId = 3, msg_senderType = ''student'',
       msg_content = ''Coach Alexander, I've completed the team building module and I'm really excited to apply these concepts in my workplace!'',
       msg_timestamp = ''2024-02-24T14:00:00Z'', msg_type = ''text''\<rparr>,
      \<lparr>msg_id = 7, msg_senderId = 2, msg_senderType = ''supercoach'',
       msg_content = ''Excellent work, Emma! Your enthusiasm is wonderful to see. How do you plan to implement the team building strategies we discussed?'',
       msg_timestamp = ''2024-02-24T14:30:00Z'', msg_type = ''text''\<rparr>,
      \<lparr>msg_id = 8, msg_senderId = 3, msg_senderType = ''student'',
       msg_content = ''I'm thinking of starting with the trust-building exercises during our weekly team meetings. Do you think that's a good approach?'',
       msg_timestamp = ''2024-02-24T15:00:00Z'', msg_type = ''text''\<rparr>,
      \<lparr>msg_id = 9, msg_senderId = 2, msg_senderType = ''supercoach'',
       msg_content = ''That's a strategic approach! Starting with trust-building is foundational. Remember to be consistent and patient - trust develops over time. Keep me updated on your progress!'',
       msg_timestamp = ''2024-02-24T15:15:00Z'', msg_type = ''text''\<rparr>]"

definition mockMessages3 :: "message list" where
  "mockMessages3 =
     [\<lparr>msg_id = 10, msg_senderId = 2, msg_senderType = ''supercoach'',
       msg_content = ''Hi Mike! I noticed you haven't been active in the course for a few days. Is everything okay? I'm here to help if you're facing any challenges.'',
       msg_timestamp = ''2024-02-23T09:00:00Z'', msg_type = ''text''\<rparr>,
      \<lparr>msg_id = 11, msg_senderId = 2, msg_senderType = ''student'',
       msg_content = ''Hi Coach Maya, sorry for the delay. I've been really busy at work and finding it hard to keep up with the course material.'',
       msg_timestamp = ''2024-02-26T18:30:00Z'', msg_type = ''text''\<rparr>,
      \<lparr>msg_id = 12, msg_senderId = 1, msg_senderType = ''supercoach'',
       msg_content = ''I completely understand! Work-life balance can be challenging. Would it help if we created a more flexible study schedule that works with your work commitments?'',
       msg_timestamp = ''2024-02-26T19:00:00Z'', msg_type = ''text''\<rparr>]"

definition mockConversations :: "conversation list" where
  "mockConversations =
     [\<lparr>conv_id = 1, conv_studentId = 1, conv_superCoachId = 1, conv_courseId = 1,
       conv_courseVersion = 2, conv_messages = mockMessages,
       conv_startedAt = ''2024-02-25T10:00:00Z'', conv_lastMessageAt = ''2024-02-25T11:00:00Z''\<rparr>,
      \<lparr>conv_id = 2, conv_studentId = 3, conv_superCoachId = 2, conv_courseId = 2,
       conv_courseVersion = 1, conv_messages = mockMessages2,
       conv_startedAt = ''2024-02-24T14:00:00Z'', conv_lastMessageAt = ''2024-02-24T15:15:00Z''\<rparr>,
      \<lparr>conv_id = 3, conv_studentId = 2, conv_superCoachId = 1, conv_courseId = 4,
       conv_courseVersion = 1, conv_messages = mockMessages3,
       conv_startedAt = ''2024-02-23T09:00:00Z'', conv_lastMessageAt = ''2024-02-26T19:00:00Z''\<rparr>]"

definition fetchConversations_done ::
  "js_error + conversation list \<Rightarrow> conversation list fetch_state \<Rightarrow> conversation list fetch_state" where
  "fetchConversations_done outcome s =
     (case outcome of
        Inr conversations \<Rightarrow> s\<lparr>data := Some conversations, loading := False\<rparr>
      | Inl (Error errorMessage) \<Rightarrow>
          (if str_includes errorMessage ''404'' \<or> str_includes errorMessage ''not found''
             then s\<lparr>data := Some mockConversations, error := None, loading := False\<rparr>
           else s\<lparr>error := Some errorMessage, loading := False\<rparr>))"

definition useConversations_effect ::
  "conversation list env \<Rightarrow> world \<Rightarrow> conversation list fetch_state \<Rightarrow> conversation list fetch_state \<times> world" where
  "useConversations_effect e w s =
     (if isAuthenticated (local_storage w) (date_now e w) then
        (case makeAuthenticatedAPICall e (API_BASE_URL @ ''/api/conversations'') no_options w of
           (outcome, w') \<Rightarrow> (fetchConversations_done outcome (fetch_start s), w'))
      else (s\<lparr>data := Some mockConversations, loading := False\<rparr>, w))"

definition not_found_env :: "'a env" where
  "not_found_env =
     \<lparr>net = (\<lambda>sent r. Resp \<lparr>resp_status = 404, resp_text = ''Not Found''\<rparr>),
      clock = (\<lambda>n. 1000),
      tokens_of = (\<lambda>s. None),
      json_of = (\<lambda>s. Inl ''Unexpected token'')\<rparr>"

definition bad_gateway_env :: "'a env" where
  "bad_gateway_env =
     \<lparr>net = (\<lambda>sent r. Resp \<lparr>resp_status = 502, resp_text = ''Bad Gateway''\<rparr>),
      clock = (\<lambda>n. 1000),
      tokens_of = (\<lambda>s. None),
      json_of = (\<lambda>s. Inl ''Unexpected token'')\<rparr>"

text \<open>Two filter sets of the students list, and a server that answers the students
  endpoint by the \<open>status\<close> filter in the URL: one stuck student, or one new student.\<close>

definition stuck_filters :: "student_filters option" where
  "stuck_filters = Some \<lparr>course_id = None, status = Some ''stuck'', search = None\<rparr>"

definition new_filters :: "student_filters option" where
  "new_filters = Some \<lparr>course_id = None, status = Some ''new'', search = None\<rparr>"

definition stuck_student :: js_object where
  "stuck_student = [(''id'', JNum 1), (''name'', JStr ''Sarah''), (''status'', JStr ''stuck'')]"

definition new_student :: js_object where
  "new_student = [(''id'', JNum 2), (''name'', JStr ''Mike''), (''status'', JStr ''new'')]"

definition students_env :: "js_object list env" where
  "students_env =
     \<lparr>net = (\<lambda>sent r.
         if req_url r = ''http://localhost:3100/api/students?status=stuck''
           then Resp \<lparr>resp_status = 200, resp_text = ''stuck''\<rparr>
         else Resp \<lparr>resp_status = 200, resp_text = ''new''\<rparr>),
      clock = (\<lambda>n. 1000),
      tokens_of = (\<lambda>s. None),
      json_of = (\<lambda>s. Inr (if s = ''stuck'' then [stuck_student] else [new_student]))\<rparr>"

text \<open>Filters that are all defined but falsy: course 0, empty status, empty search text.\<close>

definition falsy_filters :: "student_filters option" where
  "falsy_filters = Some \<lparr>course_id = Some 0, status = Some [], search = Some []\<rparr>"

definition all_filters :: "student_filters option" where
  "all_filters = Some \<lparr>course_id = Some 7, status = Some ''in_progress'', search = Some ''a b&c''\<rparr>"

text \<open>Whether a list of \<open>name=value\<close> parameters has one with the given name.\<close>

definition has_param :: "string \<Rightarrow> string list \<Rightarrow> bool" where
  "has_param name params = list_ex (\<lambda>p. take (Suc (length name)) p = name @ ''='') params"

section \<open>Login: persisting the session\<close>




section \<open>The create-student form\<close>

subsection \<open>Regular expressions, matched by derivatives\<close>










subsection \<open>String helpers\<close>



subsection \<open>The modal's state and its submit handler\<close>

record form_data =
  fd_name :: string
  fd_email :: string
  fd_phone :: string








definition good_form :: form_data where
  "good_form = \<lparr>fd_name = ''Al'', fd_email = ''A@b.com'', fd_phone = ''555 123 4567''\<rparr>"

text \<open>A locale formatter that prints every date alike, and an error body with no detail.\<close>

definition demo_localeString :: "jsval \<Rightarrow> string" where
  "demo_localeString v = ''2/26/2024, 7:00:00 PM''"


section \<open>Session validity\<close>

lemma parseInt_2000: "parseInt ''2000'' = Some 2000"
  by (simp add: parseInt_def is_space_def is_digit_def digits_val_def digit_val_def Let_def)

text \<open>
  C1, as stated, fails: the validity check never reads the refresh token. The session
  \<open>session_without_refresh\<close> has no refresh token and is valid at time 1000.
\<close>

theorem isAuthenticated_ignores_refresh_token:
  "isAuthenticated session_without_refresh 1000 \<and> getRefreshToken session_without_refresh = None"
  by (simp add: isAuthenticated_def session_without_refresh_def getAuthToken_def
      getRefreshToken_def getItem_def truthy_def parseInt_2000)

text \<open>
  C1, amended: the validity check returns true if and only if the access token and the
  stored expiry text are present and non-empty and the current time is strictly below the
  integer read from the expiry text; the refresh token is not consulted. In particular a
  session whose expiry is at or before the current time is never valid.
\<close>

theorem isAuthenticated_iff:
  "(isAuthenticated st now \<longleftrightarrow>
      (\<exists>t e expiry. getAuthToken st = Some t \<and> t \<noteq> [] \<and>
          getItem st ''expires_at'' = Some e \<and> e \<noteq> [] \<and>
          parseInt e = Some expiry \<and> now < expiry)) \<and>
   (\<forall>e expiry. getItem st ''expires_at'' = Some e \<longrightarrow> parseInt e = Some expiry \<longrightarrow>
        expiry \<le> now \<longrightarrow> \<not> isAuthenticated st now)"
  by (auto simp: isAuthenticated_def truthy_def Let_def split: option.splits)

theorem isAuthenticated_iff_witness:
  "isAuthenticated session_without_refresh 1000 \<and>
   \<not> isAuthenticated session_without_refresh 2000"
proof -
  have e: "getItem session_without_refresh ''expires_at'' = Some ''2000''"
    by (simp add: session_without_refresh_def getItem_def)
  have t: "getAuthToken session_without_refresh = Some ''tok''"
    by (simp add: session_without_refresh_def getItem_def getAuthToken_def)
  from isAuthenticated_iff [of session_without_refresh 1000] e t parseInt_2000
  have a: "isAuthenticated session_without_refresh 1000" by simp
  from isAuthenticated_iff [of session_without_refresh 2000] e parseInt_2000
  have b: "\<not> isAuthenticated session_without_refresh 2000" by simp
  from a b show ?thesis by simp
qed

section \<open>The gateway: one refresh, one retry\<close>

lemma clearAuthData_keys:
  "getItem (clearAuthData st) ''access_token'' = None"
  "getItem (clearAuthData st) ''refresh_token'' = None"
  "getItem (clearAuthData st) ''coach'' = None"
  "getItem (clearAuthData st) ''expires_at'' = None"
  by (simp_all add: clearAuthData_def removeItem_def getItem_def)

lemma refreshAuthToken_success:
  assumes "getRefreshToken (local_storage w) = Some rt" "rt \<noteq> []"
    and "net e (requests w) (refresh_request rt) = Resp rr" "resp_ok rr"
    and "tokens_of e (resp_text rr) = Some d"
  shows "refreshAuthToken e w =
           (Some (access_token d),
            w\<lparr>requests := requests w @ [refresh_request rt],
              local_storage := store_tokens d (clock e (Suc (length (requests w)))) (local_storage w)\<rparr>)"
  using assms by (simp add: refreshAuthToken_def truthy_def fetch_def date_now_def)

lemma refreshAuthToken_no_token:
  assumes "\<not> truthy (getRefreshToken (local_storage w))"
  shows "refreshAuthToken e w = (None, redirectToLogin w)"
  using assms by (simp add: refreshAuthToken_def)

lemma refreshAuthToken_rejected:
  assumes "getRefreshToken (local_storage w) = Some rt"
    and "case net e (requests w) (refresh_request rt) of
           NetFail m \<Rightarrow> True
         | Resp rr \<Rightarrow> \<not> resp_ok rr \<or> tokens_of e (resp_text rr) = None"
  shows "refreshAuthToken e w = (None, redirectToLogin (if rt = [] then w else w\<lparr>requests := requests w @ [refresh_request rt]\<rparr>))"
  using assms by (auto simp add: refreshAuthToken_def truthy_def fetch_def split: net_result.splits option.splits)


lemma getAuthHeaders_store_tokens:
  "access_token d \<noteq> [] \<Longrightarrow>
   getAuthHeaders (store_tokens d now st) =
     [(''Content-Type'', ''application/json''), (''Authorization'', ''Bearer '' @ access_token d)]"
  by (simp add: getAuthHeaders_def store_tokens_def setItem_def getAuthToken_def getItem_def)

lemma authenticatedFetch_retry:
  assumes auth: "isAuthenticated (local_storage w) (date_now e w)"
    and first: "net e (requests w) (auth_request url options (local_storage w)) = Resp r1"
               "resp_status r1 = 401"
    and rt: "getRefreshToken (local_storage w) = Some rt" "rt \<noteq> []"
    and refresh: "net e (requests w @ [auth_request url options (local_storage w)]) (refresh_request rt) = Resp rr"
                 "resp_ok rr" "tokens_of e (resp_text rr) = Some d" "access_token d \<noteq> []"
  shows "authenticatedFetch e url options w =
     (let req1 = auth_request url options (local_storage w);
          st2 = store_tokens d (clock e (Suc (Suc (length (requests w))))) (local_storage w);
          req2 = auth_request url options st2;
          w3 = w\<lparr>requests := requests w @ [req1, refresh_request rt, req2], local_storage := st2\<rparr>
      in (case net e (requests w @ [req1, refresh_request rt]) req2 of
            NetFail m \<Rightarrow> (Inl (Error m), w3)
          | Resp r2 \<Rightarrow> (Inr r2, w3)))"
proof -
  let ?req1 = "auth_request url options (local_storage w)"
  let ?w1 = "w\<lparr>requests := requests w @ [?req1]\<rparr>"
  have f1: "fetch e ?req1 w = (Resp r1, ?w1)"
    using first by (simp add: fetch_def)
  have r: "refreshAuthToken e ?w1 =
           (Some (access_token d),
            ?w1\<lparr>requests := requests ?w1 @ [refresh_request rt],
              local_storage := store_tokens d (clock e (Suc (length (requests ?w1)))) (local_storage ?w1)\<rparr>)"
    by (rule refreshAuthToken_success [where rr = rr]) (use rt refresh in simp_all)
  let ?st2 = "store_tokens d (clock e (Suc (Suc (length (requests w))))) (local_storage w)"
  let ?w2 = "w\<lparr>requests := requests w @ [?req1, refresh_request rt], local_storage := ?st2\<rparr>"
  have r': "refreshAuthToken e ?w1 = (Some (access_token d), ?w2)"
    by (simp add: r)
  have f3: "fetch e (auth_request url options ?st2) ?w2 =
            (net e (requests w @ [?req1, refresh_request rt]) (auth_request url options ?st2),
             ?w2\<lparr>requests := requests w @ [?req1, refresh_request rt, auth_request url options ?st2]\<rparr>)"
    by (simp add: fetch_def)
  show ?thesis
    unfolding authenticatedFetch_def Let_def
    using auth first(2) refresh(4)
    by (simp add: f1 r' f3 truthy_def split: net_result.splits)
qed


lemma api_result_requests: "requests (snd (api_result e r w)) = requests w"
  by (simp add: api_result_def redirectToLogin_def split: sum.splits)

lemma req_url_simps [simp]:
  "req_url (auth_request url options st) = url"
  "req_url (refresh_request rt) = refresh_url"
  by (simp_all add: auth_request_def refresh_request_def refresh_url_def)

text \<open>
  C3: when the session is valid, the first answer is 401 and the refresh succeeds (a
  refresh token is stored, the refresh endpoint answers 2xx with a readable body and a
  non-empty access token), the gateway sends exactly the original request, one refresh
  request and one retry: two calls to the resource URL and one refresh. The retry's
  authentication headers are built from the refreshed token, and the result is the retry's
  outcome, whatever its status: \<open>authenticatedFetch\<close> returns the retry's response
  itself, \<open>makeAuthenticatedAPICall\<close> what it makes of that response.
\<close>

theorem gateway_retry_after_refresh:
  assumes auth: "isAuthenticated (local_storage w) (date_now e w)"
    and first: "net e (requests w) (auth_request url options (local_storage w)) = Resp r1"
               "resp_status r1 = 401"
    and rt: "getRefreshToken (local_storage w) = Some rt" "rt \<noteq> []"
    and refresh: "net e (requests w @ [auth_request url options (local_storage w)]) (refresh_request rt) = Resp rr"
                 "resp_ok rr" "tokens_of e (resp_text rr) = Some d" "access_token d \<noteq> []"
  shows "(let req1 = auth_request url options (local_storage w);
              st2 = store_tokens d (clock e (Suc (Suc (length (requests w))))) (local_storage w);
              req2 = auth_request url options st2;
              w3 = w\<lparr>requests := requests w @ [req1, refresh_request rt, req2], local_storage := st2\<rparr>;
              retry = net e (requests w @ [req1, refresh_request rt]) req2;
              out = makeAuthenticatedAPICall e url options w
          in authenticatedFetch e url options w =
               (case retry of NetFail m \<Rightarrow> (Inl (Error m), w3) | Resp r2 \<Rightarrow> (Inr r2, w3)) \<and>
             out = (case retry of NetFail m \<Rightarrow> (Inl (Error m), w3) | Resp r2 \<Rightarrow> api_result e r2 w3) \<and>
             issued w (snd out) = [req1, refresh_request rt, req2] \<and>
             req_headers req2 =
               spread [(''Content-Type'', ''application/json''),
                       (''Authorization'', ''Bearer '' @ access_token d)] (opt_headers options) \<and>
             (url \<noteq> refresh_url \<longrightarrow>
                calls_to url (issued w (snd out)) = 2 \<and>
                calls_to refresh_url (issued w (snd out)) = 1))"
proof -
  let ?req1 = "auth_request url options (local_storage w)"
  let ?st2 = "store_tokens d (clock e (Suc (Suc (length (requests w))))) (local_storage w)"
  let ?req2 = "auth_request url options ?st2"
  let ?w3 = "w\<lparr>requests := requests w @ [?req1, refresh_request rt, ?req2], local_storage := ?st2\<rparr>"
  let ?retry = "net e (requests w @ [?req1, refresh_request rt]) ?req2"
  let ?out = "makeAuthenticatedAPICall e url options w"
  have af: "authenticatedFetch e url options w =
      (case ?retry of NetFail m \<Rightarrow> (Inl (Error m), ?w3) | Resp r2 \<Rightarrow> (Inr r2, ?w3))"
    using authenticatedFetch_retry [OF assms] by (simp add: Let_def)
  have out: "?out = (case ?retry of NetFail m \<Rightarrow> (Inl (Error m), ?w3) | Resp r2 \<Rightarrow> api_result e r2 ?w3)"
    by (simp add: makeAuthenticatedAPICall_def af split: net_result.splits)
  have reqs: "requests (snd ?out) = requests ?w3"
    by (simp add: out api_result_requests split: net_result.splits)
  have iss: "issued w (snd ?out) = [?req1, refresh_request rt, ?req2]"
    by (simp add: issued_def reqs)
  have hdr: "req_headers ?req2 =
      spread [(''Content-Type'', ''application/json''),
              (''Authorization'', ''Bearer '' @ access_token d)] (opt_headers options)"
    using refresh(4) by (simp add: auth_request_def getAuthHeaders_store_tokens)
  have cnt: "url \<noteq> refresh_url \<longrightarrow>
      calls_to url (issued w (snd ?out)) = 2 \<and> calls_to refresh_url (issued w (snd ?out)) = 1"
    by (auto simp add: iss calls_to_def)
  from af out iss hdr cnt show ?thesis
    unfolding Let_def by blast
qed

lemma demo_authenticated: "isAuthenticated demo_storage 1000"
  by (simp add: isAuthenticated_def demo_storage_def getAuthToken_def getItem_def truthy_def parseInt_2000)

theorem gateway_retry_after_refresh_witness:
  "fst (makeAuthenticatedAPICall retry_env (API_BASE_URL @ ''/api/courses'') no_options demo_world) =
     Inl (Error ''Server error. Please try again later.'') \<and>
   calls_to (API_BASE_URL @ ''/api/courses'')
     (issued demo_world
        (snd (makeAuthenticatedAPICall retry_env (API_BASE_URL @ ''/api/courses'') no_options demo_world))) = 2 \<and>
   calls_to refresh_url
     (issued demo_world
        (snd (makeAuthenticatedAPICall retry_env (API_BASE_URL @ ''/api/courses'') no_options demo_world))) = 1"
proof -
  let ?url = "API_BASE_URL @ ''/api/courses''"
  have a: "isAuthenticated (local_storage demo_world) (date_now retry_env demo_world)"
    by (simp add: demo_world_def date_now_def retry_env_def demo_authenticated)
  have f: "net retry_env (requests demo_world) (auth_request ?url no_options (local_storage demo_world)) =
           Resp \<lparr>resp_status = 401, resp_text = ''expired''\<rparr>"
    by (simp add: retry_env_def demo_world_def)
  have s: "resp_status \<lparr>resp_status = 401, resp_text = ''expired''\<rparr> = 401" by simp
  have rt: "getRefreshToken (local_storage demo_world) = Some ''r1''"
    by (simp add: demo_world_def demo_storage_def getRefreshToken_def getItem_def)
  have ne: "''r1'' \<noteq> []" by simp
  have rf: "net retry_env (requests demo_world @ [auth_request ?url no_options (local_storage demo_world)])
              (refresh_request ''r1'') = Resp \<lparr>resp_status = 200, resp_text = ''tokens''\<rparr>"
    by (simp add: retry_env_def demo_world_def)
  have ok: "resp_ok \<lparr>resp_status = 200, resp_text = ''tokens''\<rparr>" by (simp add: resp_ok_def)
  have tk: "tokens_of retry_env (resp_text \<lparr>resp_status = 200, resp_text = ''tokens''\<rparr>) = Some demo_tokens"
    by (simp add: retry_env_def)
  have tne: "access_token demo_tokens \<noteq> []" by (simp add: demo_tokens_def)
  have u: "?url \<noteq> refresh_url" by (simp add: refresh_url_def API_BASE_URL_def)
  note th = gateway_retry_after_refresh [OF a f s rt ne rf ok tk tne]
  have retry: "net retry_env [auth_request ?url no_options demo_storage, refresh_request ''r1'']
      (auth_request ?url no_options (store_tokens demo_tokens 1000 demo_storage)) =
      Resp \<lparr>resp_status = 500, resp_text = ''down''\<rparr>"
    by (simp add: retry_env_def)
  have ar: "api_result retry_env \<lparr>resp_status = 500, resp_text = ''down''\<rparr> w =
     (Inl (Error ''Server error. Please try again later.''), w)" for w
    by (simp add: api_result_def resp_ok_def handleAuthError_def)
  have c: "clock retry_env n = 1000" for n by (simp add: retry_env_def)
  let ?out = "makeAuthenticatedAPICall retry_env ?url no_options demo_world"
  let ?req1 = "auth_request ?url no_options (local_storage demo_world)"
  let ?st2 = "store_tokens demo_tokens (clock retry_env (Suc (Suc (length (requests demo_world))))) (local_storage demo_world)"
  let ?req2 = "auth_request ?url no_options ?st2"
  let ?w3 = "demo_world\<lparr>requests := requests demo_world @ [?req1, refresh_request ''r1'', ?req2], local_storage := ?st2\<rparr>"
  from th have out: "?out = (case net retry_env (requests demo_world @ [?req1, refresh_request ''r1'']) ?req2 of
       NetFail m \<Rightarrow> (Inl (Error m), ?w3) | Resp r2 \<Rightarrow> api_result retry_env r2 ?w3)"
    unfolding Let_def by blast
  from th u have cnt: "calls_to ?url (issued demo_world (snd ?out)) = 2 \<and>
       calls_to refresh_url (issued demo_world (snd ?out)) = 1"
    unfolding Let_def by blast
  have "net retry_env (requests demo_world @ [?req1, refresh_request ''r1'']) ?req2 =
      Resp \<lparr>resp_status = 500, resp_text = ''down''\<rparr>"
    by (simp add: retry_env_def)
  with out have "fst ?out = Inl (Error ''Server error. Please try again later.'')"
    by (simp add: ar)
  with cnt show ?thesis by blast
qed


lemma refreshAuthToken_fails:
  assumes "\<not> truthy (getRefreshToken (local_storage w)) \<or>
           (\<exists>rt. getRefreshToken (local_storage w) = Some rt \<and>
              (case net e (requests w) (refresh_request rt) of
                 NetFail m \<Rightarrow> True
               | Resp rr \<Rightarrow> \<not> resp_ok rr \<or> tokens_of e (resp_text rr) = None))"
  shows "refreshAuthToken e w =
           (None, redirectToLogin (w\<lparr>requests := requests w @
              (case getRefreshToken (local_storage w) of
                 None \<Rightarrow> []
               | Some rt \<Rightarrow> if rt \<noteq> [] then [refresh_request rt] else [])\<rparr>))"
proof (cases "truthy (getRefreshToken (local_storage w))")
  case False
  then show ?thesis
    by (simp add: refreshAuthToken_def truthy_def split: option.splits)
next
  case True
  then obtain rt where rt: "getRefreshToken (local_storage w) = Some rt" "rt \<noteq> []"
    by (auto simp: truthy_def split: option.splits)
  with assms True
  have "case net e (requests w) (refresh_request rt) of
          NetFail m \<Rightarrow> True
        | Resp rr \<Rightarrow> \<not> resp_ok rr \<or> tokens_of e (resp_text rr) = None"
    by auto
  with rt show ?thesis
    by (auto simp add: refreshAuthToken_def truthy_def fetch_def split: net_result.splits)
qed

text \<open>
  C4: when the session is valid, the first answer is 401 and the refresh fails (no
  refresh token is stored, or the refresh request meets a network error, a non-2xx answer
  or an unreadable body), the gateway fails with the error \<open>Authentication failed\<close>. It
  has sent the original request once and never again (besides at most the one refresh
  request), it has removed all four session keys from the store, and it has asked for the
  reload that leads back to the login screen.
\<close>

theorem gateway_refresh_failure:
  assumes auth: "isAuthenticated (local_storage w) (date_now e w)"
    and first: "net e (requests w) (auth_request url options (local_storage w)) = Resp r1"
               "resp_status r1 = 401"
    and fail: "\<not> truthy (getRefreshToken (local_storage w)) \<or>
           (\<exists>rt. getRefreshToken (local_storage w) = Some rt \<and>
              (case net e (requests w @ [auth_request url options (local_storage w)]) (refresh_request rt) of
                 NetFail m \<Rightarrow> True
               | Resp rr \<Rightarrow> \<not> resp_ok rr \<or> tokens_of e (resp_text rr) = None))"
  shows "(let out = makeAuthenticatedAPICall e url options w; w' = snd out
          in fst out = Inl (Error ''Authentication failed'') \<and>
             issued w w' =
               auth_request url options (local_storage w) #
               (case getRefreshToken (local_storage w) of
                  None \<Rightarrow> []
                | Some rt \<Rightarrow> if rt \<noteq> [] then [refresh_request rt] else []) \<and>
             (url \<noteq> refresh_url \<longrightarrow> calls_to url (issued w w') = 1) \<and>
             local_storage w' = clearAuthData (local_storage w) \<and>
             getItem (local_storage w') ''access_token'' = None \<and>
             getItem (local_storage w') ''refresh_token'' = None \<and>
             getItem (local_storage w') ''coach'' = None \<and>
             getItem (local_storage w') ''expires_at'' = None \<and>
             reloads w' = Suc (reloads w))"
proof -
  let ?req1 = "auth_request url options (local_storage w)"
  let ?w1 = "w\<lparr>requests := requests w @ [?req1]\<rparr>"
  let ?more = "case getRefreshToken (local_storage w) of
                 None \<Rightarrow> []
               | Some rt \<Rightarrow> if rt \<noteq> [] then [refresh_request rt] else []"
  let ?w2 = "redirectToLogin (?w1\<lparr>requests := requests ?w1 @ ?more\<rparr>)"
  have f1: "fetch e ?req1 w = (Resp r1, ?w1)"
    using first by (simp add: fetch_def)
  have r: "refreshAuthToken e ?w1 = (None, ?w2)"
    using refreshAuthToken_fails [of ?w1 e] fail by simp
  have af: "authenticatedFetch e url options w = (Inl (Error ''Authentication failed''), ?w2)"
    unfolding authenticatedFetch_def using auth first(2)
    by (simp add: f1 r truthy_def)
  have out: "makeAuthenticatedAPICall e url options w = (Inl (Error ''Authentication failed''), ?w2)"
    by (simp add: makeAuthenticatedAPICall_def af)
  have iss: "issued w ?w2 = ?req1 # ?more"
    by (simp add: issued_def redirectToLogin_def)
  have cnt: "url \<noteq> refresh_url \<longrightarrow> calls_to url (issued w ?w2) = 1"
    unfolding iss by (simp add: calls_to_def split: option.splits)
  have st: "local_storage ?w2 = clearAuthData (local_storage w)"
    by (simp add: redirectToLogin_def)
  have rl: "reloads ?w2 = Suc (reloads w)"
    by (simp add: redirectToLogin_def)
  show ?thesis
    unfolding Let_def out fst_conv snd_conv
    using iss cnt st rl by (simp add: clearAuthData_keys)
qed

theorem gateway_refresh_failure_witness:
  "makeAuthenticatedAPICall refused_env (API_BASE_URL @ ''/api/courses'') no_options demo_world =
     (Inl (Error ''Authentication failed''),
      \<lparr>local_storage = clearAuthData demo_storage,
       requests = [auth_request (API_BASE_URL @ ''/api/courses'') no_options demo_storage,
                   refresh_request ''r1''],
       reloads = 1\<rparr>)"
proof -
  let ?url = "API_BASE_URL @ ''/api/courses''"
  let ?out = "makeAuthenticatedAPICall refused_env ?url no_options demo_world"
  have a: "isAuthenticated (local_storage demo_world) (date_now refused_env demo_world)"
    by (simp add: demo_world_def date_now_def refused_env_def demo_authenticated)
  have f: "net refused_env (requests demo_world) (auth_request ?url no_options (local_storage demo_world)) =
           Resp \<lparr>resp_status = 401, resp_text = ''expired''\<rparr>"
    by (simp add: refused_env_def demo_world_def)
  have s: "resp_status \<lparr>resp_status = 401, resp_text = ''expired''\<rparr> = 401" by simp
  have rt: "getRefreshToken (local_storage demo_world) = Some ''r1''"
    by (simp add: demo_world_def demo_storage_def getRefreshToken_def getItem_def)
  have fl: "\<not> truthy (getRefreshToken (local_storage demo_world)) \<or>
           (\<exists>rt. getRefreshToken (local_storage demo_world) = Some rt \<and>
              (case net refused_env (requests demo_world @ [auth_request ?url no_options (local_storage demo_world)])
                      (refresh_request rt) of
                 NetFail m \<Rightarrow> True
               | Resp rr \<Rightarrow> \<not> resp_ok rr \<or> tokens_of refused_env (resp_text rr) = None))"
    by (simp add: rt refused_env_def resp_ok_def)
  note th = gateway_refresh_failure [OF a f s fl]
  from th have 1: "fst ?out = Inl (Error ''Authentication failed'')"
    unfolding Let_def by blast
  from th have 2: "issued demo_world (snd ?out) =
      [auth_request ?url no_options demo_storage, refresh_request ''r1'']"
    unfolding Let_def by (simp add: rt) (simp add: demo_world_def)
  from th have 3: "local_storage (snd ?out) = clearAuthData demo_storage"
    unfolding Let_def by (simp add: demo_world_def)
  from th have 4: "reloads (snd ?out) = 1"
    unfolding Let_def by (simp add: demo_world_def)
  from 2 have 5: "requests (snd ?out) =
      [auth_request ?url no_options demo_storage, refresh_request ''r1'']"
    by (simp add: issued_def demo_world_def)
  obtain x w' where o: "?out = (x, w')" by (cases ?out)
  have "w' = \<lparr>local_storage = local_storage w', requests = requests w', reloads = reloads w'\<rparr>"
    by simp
  with 1 3 4 5 o show ?thesis by simp
qed

section \<open>Status codes and messages\<close>

lemma show_nat_502: "show_nat 502 = ''502''"
  by (simp add: show_nat.simps digit_char_def)

text \<open>
  C6, as stated, fails: of the 5xx statuses only 500 has the server-error message. The
  status 502 falls to the default branch and gets the generic message, which is not the
  one given to 500.
\<close>

theorem bad_gateway_is_not_server_error:
  "handleAuthError 502 ''Bad Gateway'' = Error ''Request failed with status 502. Bad Gateway'' \<and>
   handleAuthError 502 ''Bad Gateway'' \<noteq> handleAuthError 500 ''Bad Gateway''"
  by (simp add: handleAuthError_def show_nat_502)

text \<open>
  C6, amended: for every response that is not 2xx and not 401 the gateway fails with the
  message \<open>handleAuthError\<close> gives for its status and body text: 403 gets the permission
  message, 404 the not-found message, 429 the too-many-requests message, 500 the
  server-error message, and every other status, the other 5xx among them, the generic
  message that quotes the status and the body text.
\<close>

theorem status_to_message:
  "(\<not> resp_ok r \<and> resp_status r \<noteq> 401 \<longrightarrow>
      api_result e r w = (Inl (handleAuthError (resp_status r) (resp_text r)), w)) \<and>
   handleAuthError 403 t = Error ''You do not have permission to access this resource.'' \<and>
   handleAuthError 404 t = Error ''The requested resource was not found.'' \<and>
   handleAuthError 429 t = Error ''Too many requests. Please try again later.'' \<and>
   handleAuthError 500 t = Error ''Server error. Please try again later.'' \<and>
   (n \<notin> {401, 403, 404, 429, 500} \<longrightarrow>
      handleAuthError n t = Error (''Request failed with status '' @ show_nat n @ ''. '' @ t))"
  by (simp add: api_result_def handleAuthError_def)

theorem status_to_message_witness:
  "api_result (bad_gateway_env :: unit env) \<lparr>resp_status = 502, resp_text = ''Bad Gateway''\<rparr> demo_world =
     (Inl (Error ''Request failed with status 502. Bad Gateway''), demo_world)"
  using status_to_message [of "\<lparr>resp_status = 502, resp_text = ''Bad Gateway''\<rparr>"
      "bad_gateway_env :: unit env" demo_world "''Bad Gateway''" 502]
  by (simp add: resp_ok_def show_nat_502)

section \<open>Conversations fall back on 404\<close>

lemma not_found_includes: "str_includes ''The requested resource was not found.'' ''not found''"
  by simp

lemma makeAuthenticatedAPICall_plain:
  assumes "isAuthenticated (local_storage w) (date_now e w)"
    and "net e (requests w) (auth_request url options (local_storage w)) = Resp r"
    and "resp_status r \<noteq> 401"
  shows "makeAuthenticatedAPICall e url options w =
           api_result e r (w\<lparr>requests := requests w @ [auth_request url options (local_storage w)]\<rparr>)"
  using assms by (simp add: makeAuthenticatedAPICall_def authenticatedFetch_def fetch_def)

text \<open>
  C5: when the conversations hook runs its effect with a valid session and the request is
  answered with status 404, the hook ends with the built-in conversations as data, no
  error, and \<open>loading\<close> false.
\<close>

theorem conversations_fallback_on_404:
  assumes "isAuthenticated (local_storage w) (date_now e w)"
    and "net e (requests w)
           (auth_request (API_BASE_URL @ ''/api/conversations'') no_options (local_storage w)) = Resp r"
    and "resp_status r = 404"
  shows "fst (useConversations_effect e w s) =
           s\<lparr>data := Some mockConversations, error := None, loading := False\<rparr>"
proof -
  let ?w1 = "w\<lparr>requests := requests w @
      [auth_request (API_BASE_URL @ ''/api/conversations'') no_options (local_storage w)]\<rparr>"
  have "makeAuthenticatedAPICall e (API_BASE_URL @ ''/api/conversations'') no_options w = api_result e r ?w1"
    using assms by (intro makeAuthenticatedAPICall_plain) simp_all
  also have "\<dots> = (Inl (Error ''The requested resource was not found.''), ?w1)"
    using assms(3) by (simp add: api_result_def resp_ok_def handleAuthError_def)
  finally have call: "makeAuthenticatedAPICall e (API_BASE_URL @ ''/api/conversations'') no_options w =
      (Inl (Error ''The requested resource was not found.''), ?w1)" .
  have "fetchConversations_done (Inl (Error ''The requested resource was not found.'')) (fetch_start s) =
      s\<lparr>data := Some mockConversations, error := None, loading := False\<rparr>"
    unfolding fetchConversations_done_def using not_found_includes
    by (simp add: fetch_start_def)
  with call assms(1) show ?thesis
    by (simp add: useConversations_effect_def)
qed

theorem conversations_fallback_on_404_witness:
  "fst (useConversations_effect not_found_env demo_world initial_state) =
     \<lparr>data = Some mockConversations, loading = False, error = None\<rparr>"
proof -
  have a: "isAuthenticated (local_storage demo_world) (date_now (not_found_env :: conversation list env) demo_world)"
    by (simp add: demo_world_def date_now_def not_found_env_def demo_authenticated)
  have n: "net (not_found_env :: conversation list env) (requests demo_world)
           (auth_request (API_BASE_URL @ ''/api/conversations'') no_options (local_storage demo_world)) =
           Resp \<lparr>resp_status = 404, resp_text = ''Not Found''\<rparr>"
    by (simp add: not_found_env_def)
  have s: "resp_status \<lparr>resp_status = 404, resp_text = ''Not Found''\<rparr> = 404" by simp
  from conversations_fallback_on_404 [OF a n s, of initial_state]
  show ?thesis by (simp add: initial_state_def)
qed

section \<open>What a failed request leaves behind\<close>

lemma failed_call_unauthenticated:
  assumes "\<not> isAuthenticated (local_storage w) (date_now e w)"
  shows "fst (makeAuthenticatedAPICall e url options w) = Inl (Error ''Authentication required'')"
  using assms by (simp add: makeAuthenticatedAPICall_def authenticatedFetch_def)

text \<open>
  C7: when the gateway call of a hook fails with message \<open>m\<close>, the hook ends with
  \<open>error\<close> equal to \<open>m\<close> and \<open>loading\<close> false, and \<open>data\<close> is the value it held before
  the request: for the courses, dashboard metrics and students hooks, and for the
  conversations hook when the message does not trigger its fallback. This covers the run
  that finds no valid session, whose message is \<open>Authentication required\<close>.
\<close>

theorem failure_keeps_data:
  "(fst (makeAuthenticatedAPICall e1 (API_BASE_URL @ ''/api/courses'') no_options w) = Inl (Error m) \<longrightarrow>
      fst (useCourses_effect e1 w s1) = s1\<lparr>error := Some m, loading := False\<rparr> \<and>
      data (fst (useCourses_effect e1 w s1)) = data s1) \<and>
   (fst (makeAuthenticatedAPICall e2 (API_BASE_URL @ ''/api/dashboard/metrics'') no_options w) = Inl (Error m) \<longrightarrow>
      fst (useDashboardMetrics_effect e2 w s2) = s2\<lparr>error := Some m, loading := False\<rparr> \<and>
      data (fst (useDashboardMetrics_effect e2 w s2)) = data s2) \<and>
   (fst (makeAuthenticatedAPICall e1 (students_url filters) no_options w) = Inl (Error m) \<longrightarrow>
      fst (useStudents_effect localeString e1 filters w s1) = s1\<lparr>error := Some m, loading := False\<rparr> \<and>
      data (fst (useStudents_effect localeString e1 filters w s1)) = data s1) \<and>
   (isAuthenticated (local_storage w) (date_now e3 w) \<and>
    fst (makeAuthenticatedAPICall e3 (API_BASE_URL @ ''/api/conversations'') no_options w) = Inl (Error m) \<and>
    \<not> str_includes m ''404'' \<and> \<not> str_includes m ''not found'' \<longrightarrow>
      fst (useConversations_effect e3 w s3) = s3\<lparr>error := Some m, loading := False\<rparr> \<and>
      data (fst (useConversations_effect e3 w s3)) = data s3)"
proof (intro conjI impI)
  assume a: "fst (makeAuthenticatedAPICall e1 (API_BASE_URL @ ''/api/courses'') no_options w) = Inl (Error m)"
  show c: "fst (useCourses_effect e1 w s1) = s1\<lparr>error := Some m, loading := False\<rparr>"
  proof (cases "isAuthenticated (local_storage w) (date_now e1 w)")
    case True
    with a show ?thesis
      by (simp add: useCourses_effect_def fetchCourses_done_def fetch_start_def case_prod_beta)
  next
    case False
    with a failed_call_unauthenticated [OF False] show ?thesis
      by (simp add: useCourses_effect_def not_authenticated_def)
  qed
  show "data (fst (useCourses_effect e1 w s1)) = data s1"
    by (simp add: c)
next
  assume a: "fst (makeAuthenticatedAPICall e2 (API_BASE_URL @ ''/api/dashboard/metrics'') no_options w) = Inl (Error m)"
  show c: "fst (useDashboardMetrics_effect e2 w s2) = s2\<lparr>error := Some m, loading := False\<rparr>"
  proof (cases "isAuthenticated (local_storage w) (date_now e2 w)")
    case True
    with a show ?thesis
      by (simp add: useDashboardMetrics_effect_def fetchMetrics_done_def fetch_start_def case_prod_beta)
  next
    case False
    with a failed_call_unauthenticated [OF False] show ?thesis
      by (simp add: useDashboardMetrics_effect_def not_authenticated_def)
  qed
  show "data (fst (useDashboardMetrics_effect e2 w s2)) = data s2"
    by (simp add: c)
next
  assume a: "fst (makeAuthenticatedAPICall e1 (students_url filters) no_options w) = Inl (Error m)"
  show c: "fst (useStudents_effect localeString e1 filters w s1) = s1\<lparr>error := Some m, loading := False\<rparr>"
  proof (cases "isAuthenticated (local_storage w) (date_now e1 w)")
    case True
    with a show ?thesis
      by (simp add: useStudents_effect_def fetchStudents_done_def fetch_start_def case_prod_beta)
  next
    case False
    with a failed_call_unauthenticated [OF False] show ?thesis
      by (simp add: useStudents_effect_def not_authenticated_def)
  qed
  show "data (fst (useStudents_effect localeString e1 filters w s1)) = data s1"
    by (simp add: c)
next
  assume a: "isAuthenticated (local_storage w) (date_now e3 w) \<and>
    fst (makeAuthenticatedAPICall e3 (API_BASE_URL @ ''/api/conversations'') no_options w) = Inl (Error m) \<and>
    \<not> str_includes m ''404'' \<and> \<not> str_includes m ''not found''"
  then show c: "fst (useConversations_effect e3 w s3) = s3\<lparr>error := Some m, loading := False\<rparr>"
    by (simp add: useConversations_effect_def fetchConversations_done_def fetch_start_def case_prod_beta)
  show "data (fst (useConversations_effect e3 w s3)) = data s3"
    by (simp add: c)
qed


lemma bad_gateway_call:
  "makeAuthenticatedAPICall bad_gateway_env url no_options demo_world =
     (Inl (Error ''Request failed with status 502. Bad Gateway''),
      demo_world\<lparr>requests := [auth_request url no_options demo_storage]\<rparr>)"
proof -
  have "makeAuthenticatedAPICall bad_gateway_env url no_options demo_world =
      api_result bad_gateway_env \<lparr>resp_status = 502, resp_text = ''Bad Gateway''\<rparr>
        (demo_world\<lparr>requests := requests demo_world @ [auth_request url no_options (local_storage demo_world)]\<rparr>)"
    by (rule makeAuthenticatedAPICall_plain)
      (simp_all add: demo_world_def date_now_def bad_gateway_env_def demo_authenticated)
  then show ?thesis
    by (simp add: api_result_def resp_ok_def handleAuthError_def show_nat_502 demo_world_def)
qed

theorem failure_keeps_data_witness:
  "fst (useCourses_effect bad_gateway_env demo_world
          \<lparr>data = Some [], loading = False, error = None\<rparr>) =
     \<lparr>data = Some [], loading = False, error = Some ''Request failed with status 502. Bad Gateway''\<rparr>"
proof -
  have c: "fst (makeAuthenticatedAPICall (bad_gateway_env :: js_object list env)
                 (API_BASE_URL @ ''/api/courses'') no_options demo_world) =
           Inl (Error ''Request failed with status 502. Bad Gateway'')"
    by (simp add: bad_gateway_call)
  from failure_keeps_data [THEN conjunct1, rule_format, OF c, THEN conjunct1,
      of "\<lparr>data = Some [], loading = False, error = None\<rparr>"]
  show ?thesis by simp
qed

section \<open>Overlapping requests of the students hook\<close>

lemma students_url_stuck:
  "students_url stuck_filters = ''http://localhost:3100/api/students?status=stuck''"
  by (simp add: students_url_def students_queryParams_def stuck_filters_def truthy_def
      encodeURIComponent_def uri_unreserved_def is_alnum_def API_BASE_URL_def Let_def)

lemma students_url_new:
  "students_url new_filters = ''http://localhost:3100/api/students?status=new''"
  by (simp add: students_url_def students_queryParams_def new_filters_def truthy_def
      encodeURIComponent_def uri_unreserved_def is_alnum_def API_BASE_URL_def Let_def)

lemma students_env_call:
  assumes "isAuthenticated (local_storage w) 1000"
  shows "fst (makeAuthenticatedAPICall students_env url no_options w) =
           Inr (if url = ''http://localhost:3100/api/students?status=stuck''
                then [stuck_student] else [new_student])"
    and "local_storage (snd (makeAuthenticatedAPICall students_env url no_options w)) = local_storage w"
proof -
  let ?r = "if url = ''http://localhost:3100/api/students?status=stuck''
           then \<lparr>resp_status = 200, resp_text = ''stuck''\<rparr>
           else \<lparr>resp_status = 200, resp_text = ''new''\<rparr>"
  have "makeAuthenticatedAPICall students_env url no_options w =
      api_result students_env ?r
        (w\<lparr>requests := requests w @ [auth_request url no_options (local_storage w)]\<rparr>)"
    by (rule makeAuthenticatedAPICall_plain)
      (use assms in \<open>simp_all add: date_now_def students_env_def\<close>)
  then show "fst (makeAuthenticatedAPICall students_env url no_options w) =
           Inr (if url = ''http://localhost:3100/api/students?status=stuck''
                then [stuck_student] else [new_student])"
    and "local_storage (snd (makeAuthenticatedAPICall students_env url no_options w)) = local_storage w"
    by (simp_all add: api_result_def resp_ok_def students_env_def)
qed

text \<open>
  C2, as stated, fails: nothing in the hook tells a response of a superseded request from
  a current one. With the filters changed from \<open>status=stuck\<close> to \<open>status=new\<close> and the
  first response arriving last, the final data is the stuck student of the first request,
  not the new student the second request returned.
\<close>

theorem stale_response_overwrites:
  "fst (makeAuthenticatedAPICall students_env (students_url new_filters) no_options demo_world) =
     Inr [new_student] \<and>
   data (useStudents_overlap demo_localeString students_env stuck_filters new_filters demo_world initial_state) =
     Some [transform_student demo_localeString stuck_student] \<and>
   data (useStudents_overlap demo_localeString students_env stuck_filters new_filters demo_world initial_state) \<noteq>
     Some [transform_student demo_localeString new_student]"
proof -
  have a: "isAuthenticated (local_storage demo_world) 1000"
    by (simp add: demo_world_def demo_authenticated)
  have 1: "fst (makeAuthenticatedAPICall students_env (students_url new_filters) no_options demo_world) =
     Inr [new_student]"
    by (simp add: students_env_call(1) [OF a] students_url_new)
  let ?c1 = "makeAuthenticatedAPICall students_env (students_url stuck_filters) no_options demo_world"
  have o1: "fst ?c1 = Inr [stuck_student]"
    by (simp add: students_env_call(1) [OF a] students_url_stuck)
  have 2: "data (useStudents_overlap demo_localeString students_env stuck_filters new_filters demo_world initial_state) =
     Some [transform_student demo_localeString stuck_student]"
    by (simp add: useStudents_overlap_def case_prod_beta o1 fetchStudents_done_def)
  have "map_of (transform_student demo_localeString stuck_student) ''id'' = Some (JNum 1)"
    by (simp add: transform_student_def with_props_def stuck_student_def)
  moreover have "map_of (transform_student demo_localeString new_student) ''id'' = Some (JNum 2)"
    by (simp add: transform_student_def with_props_def new_student_def)
  ultimately have "transform_student demo_localeString stuck_student \<noteq> transform_student demo_localeString new_student"
    by auto
  with 1 2 show ?thesis by simp
qed

text \<open>
  C2, amended: each response is applied to the hook state when it arrives, with no check
  that its request is still the current one. When the response of the first request
  arrives after the response of the second, the final data is the (transformed) result of
  the first request: the last response to arrive wins.
\<close>

theorem last_response_wins:
  "(fst (makeAuthenticatedAPICall e (students_url f1) no_options w) = Inr students1 \<longrightarrow>
      data (useStudents_overlap localeString e f1 f2 w s) =
        Some (map (transform_student localeString) students1)) \<and>
   data (fetchStudents_done localeString (Inr late)
           (fetchStudents_done localeString (Inr early) (fetch_start (fetch_start s)))) =
     Some (map (transform_student localeString) late)"
  by (simp add: useStudents_overlap_def case_prod_beta fetchStudents_done_def)

theorem last_response_wins_witness:
  "data (useStudents_overlap demo_localeString students_env stuck_filters new_filters demo_world initial_state) =
     Some [transform_student demo_localeString stuck_student]"
proof -
  have a: "isAuthenticated (local_storage demo_world) 1000"
    by (simp add: demo_world_def demo_authenticated)
  have "fst (makeAuthenticatedAPICall students_env (students_url stuck_filters) no_options demo_world) =
      Inr [stuck_student]"
    by (simp add: students_env_call(1) [OF a] students_url_stuck)
  with last_response_wins [of students_env stuck_filters demo_world "[stuck_student]" demo_localeString
      new_filters initial_state]
  show ?thesis by simp
qed

section \<open>The query string of the students request\<close>

text \<open>
  C8, as stated, fails: the hook tests each filter for truthiness, not for being defined.
  A filter set whose three filters are all defined, as course 0 and two empty strings,
  gives the URL with no query string at all.
\<close>

theorem defined_falsy_filters_are_dropped:
  "Option.bind falsy_filters course_id = Some 0 \<and>
   Option.bind falsy_filters status = Some [] \<and>
   Option.bind falsy_filters search = Some [] \<and>
   students_url falsy_filters = ''http://localhost:3100/api/students''"
  by (simp add: falsy_filters_def students_url_def students_queryParams_def truthy_def
      API_BASE_URL_def Let_def)

text \<open>
  C8, amended: the query string holds exactly the filters that are truthy (a course id
  that is defined and not zero, a status or search text that is defined and not empty), in
  the order course id, status, search, joined with \<open>&\<close>; a filter that is omitted,
  undefined or falsy never appears, and with no truthy filter the URL has no query string.
  In particular the filter set with only the status \<open>stuck\<close> gives the URL that ends in
  \<open>students?status=stuck\<close>.
\<close>

theorem students_query:
  "students_queryParams filters =
     (case Option.bind filters course_id of
        Some n \<Rightarrow> if n \<noteq> 0 then [''course_id='' @ show_int n] else []
      | None \<Rightarrow> []) @
     (case Option.bind filters status of
        Some s \<Rightarrow> if s \<noteq> [] then [''status='' @ encodeURIComponent s] else []
      | None \<Rightarrow> []) @
     (case Option.bind filters search of
        Some s \<Rightarrow> if s \<noteq> [] then [''search='' @ encodeURIComponent s] else []
      | None \<Rightarrow> []) \<and>
   students_url filters =
     API_BASE_URL @ ''/api/students'' @
       (if students_queryParams filters = [] then []
        else ''?'' @ join ''&'' (students_queryParams filters)) \<and>
   (has_param ''course_id'' (students_queryParams filters) \<longleftrightarrow>
      (\<exists>n. Option.bind filters course_id = Some n \<and> n \<noteq> 0)) \<and>
   (has_param ''status'' (students_queryParams filters) \<longleftrightarrow>
      (\<exists>s. Option.bind filters status = Some s \<and> s \<noteq> [])) \<and>
   (has_param ''search'' (students_queryParams filters) \<longleftrightarrow>
      (\<exists>s. Option.bind filters search = Some s \<and> s \<noteq> [])) \<and>
   students_url (Some \<lparr>course_id = None, status = Some ''stuck'', search = None\<rparr>) =
     ''http://localhost:3100/api/students?status=stuck''"
proof (intro conjI)
  show q: "students_queryParams filters =
     (case Option.bind filters course_id of
        Some n \<Rightarrow> if n \<noteq> 0 then [''course_id='' @ show_int n] else []
      | None \<Rightarrow> []) @
     (case Option.bind filters status of
        Some s \<Rightarrow> if s \<noteq> [] then [''status='' @ encodeURIComponent s] else []
      | None \<Rightarrow> []) @
     (case Option.bind filters search of
        Some s \<Rightarrow> if s \<noteq> [] then [''search='' @ encodeURIComponent s] else []
      | None \<Rightarrow> [])"
    by (simp add: students_queryParams_def truthy_def Let_def split: option.splits)
  show "students_url filters =
     API_BASE_URL @ ''/api/students'' @
       (if students_queryParams filters = [] then []
        else ''?'' @ join ''&'' (students_queryParams filters))"
    by (simp add: students_url_def Let_def)
  show "has_param ''course_id'' (students_queryParams filters) \<longleftrightarrow>
      (\<exists>n. Option.bind filters course_id = Some n \<and> n \<noteq> 0)"
    unfolding q by (simp add: has_param_def split: option.splits)
  show "has_param ''status'' (students_queryParams filters) \<longleftrightarrow>
      (\<exists>s. Option.bind filters status = Some s \<and> s \<noteq> [])"
    unfolding q by (simp add: has_param_def split: option.splits)
  show "has_param ''search'' (students_queryParams filters) \<longleftrightarrow>
      (\<exists>s. Option.bind filters search = Some s \<and> s \<noteq> [])"
    unfolding q by (simp add: has_param_def split: option.splits)
  show "students_url (Some \<lparr>course_id = None, status = Some ''stuck'', search = None\<rparr>) =
     ''http://localhost:3100/api/students?status=stuck''"
    using students_url_stuck by (simp add: stuck_filters_def)
qed

lemma show_int_7: "show_int 7 = ''7''"
  by (simp add: show_int_def show_nat.simps digit_char_def)

theorem students_query_witness:
  "students_url all_filters =
     ''http://localhost:3100/api/students?course_id=7&status=in_progress&search=a%20b%26c'' \<and>
   students_url falsy_filters = ''http://localhost:3100/api/students''"
proof -
  have 1: "students_queryParams all_filters = [''course_id=7'', ''status=in_progress'', ''search=a%20b%26c'']"
    using students_query [of all_filters]
    by (simp add: all_filters_def show_int_7 encodeURIComponent_def uri_unreserved_def is_alnum_def
        is_digit_def digit_char_def)
  have 2: "students_queryParams falsy_filters = []"
    using students_query [of falsy_filters] by (simp add: falsy_filters_def)
  from students_query [of all_filters] students_query [of falsy_filters] show ?thesis
    unfolding 1 2 by (simp add: API_BASE_URL_def)
qed

section \<open>Storing a session and reading it back\<close>











section \<open>Submitting a form that does not validate\<close>





end
